theory Spec2Isabelle
  imports Main "HOL-Library.Sublist"
begin

section \<open>JavaScript values\<close>

text \<open>
  A JavaScript string is a \<^typ>\<open>string\<close>: one \<^typ>\<open>char\<close> per code unit (the code units
  below 256; no function of the two scripts looks at a code unit beyond \<open>=\<close>, \<open>:\<close>,
  the letters of its own literals and the white space class of its one regular expression).
  An object used as a dictionary (\<open>process.env\<close>, the object \<open>stripCSC\<close> returns) is the
  map of its own enumerable properties; reading a property the object does not have gives
  \<open>undefined\<close>, here \<^term>\<open>None\<close>.
\<close>

type_synonym environment = "string \<rightharpoonup> string"

text \<open>
  Objects live in a store, so that "a new object" and "the same object" are different
  answers: a reference is an address, \<open>cells\<close> gives the properties of the object at an
  address and the addresses below \<open>fresh\<close> are the ones allocated so far.
\<close>

type_synonym ref = nat

record heap =
  cells :: "ref \<Rightarrow> environment"
  fresh :: ref

definition alloc :: "heap \<Rightarrow> environment \<Rightarrow> ref \<times> heap" where
  "alloc h obj = (fresh h, \<lparr>cells = (cells h)(fresh h := obj), fresh = Suc (fresh h)\<rparr>)"

text \<open>\<open>new Error(message)\<close>, and the \<open>TypeError\<close> the engine raises by itself.\<close>

datatype error = Error string | TypeError string

text \<open>
  Truthiness, as \<open>if (v)\<close>, \<open>!v\<close> and \<open>v || w\<close> test it: \<open>undefined\<close> and \<open>null\<close>
  (\<^term>\<open>None\<close>) are falsy, and so are the empty string, \<open>false\<close> and \<open>0\<close>.
\<close>

definition truthyString :: "string option \<Rightarrow> bool" where
  "truthyString v = (case v of None \<Rightarrow> False | Some s \<Rightarrow> s \<noteq> [])"

definition truthyBoolean :: "bool option \<Rightarrow> bool" where
  "truthyBoolean v = (case v of None \<Rightarrow> False | Some b \<Rightarrow> b)"

definition truthyNumber :: "int option \<Rightarrow> bool" where
  "truthyNumber v = (case v of None \<Rightarrow> False | Some n \<Rightarrow> n \<noteq> 0)"

text \<open>\<open>Array.prototype.join\<close> on an array of strings.\<close>

fun join :: "string \<Rightarrow> string list \<Rightarrow> string" where
  "join sep [] = []"
| "join sep [x] = x"
| "join sep (x # y # ys) = x @ sep @ join sep (y # ys)"

text \<open>\<open>String(n)\<close> for an integer \<open>n\<close>, as a template literal prints a number.\<close>

fun digits :: "nat \<Rightarrow> string" where
  "digits n =
     (if n < 10 then [char_of (48 + n)]
      else digits (n div 10) @ [char_of (48 + n mod 10)])"

definition numberToString :: "int \<Rightarrow> string" where
  "numberToString n = (if n < 0 then CHR ''-'' # digits (nat (- n)) else digits (nat n))"

section \<open>The Node process and what it can do\<close>

text \<open>The object \<open>spawnSync\<close> returns: \<open>error\<close>, \<open>signal\<close> and \<open>status\<close>.\<close>

record spawnResult =
  error :: "error option"
  signal :: "string option"
  status :: "int option"

text \<open>The object handed to \<open>notarize\<close> of the package \<open>electron-notarize\<close>.\<close>

record notarizeOptions =
  appBundleId :: string
  appPath :: string
  appleId :: string
  appleIdPassword :: string

text \<open>
  What a run leaves behind, in order: lines written to the console, child processes
  spawned (command, arguments, and the \<open>env\<close> option: a reference; \<open>shell: true\<close> and
  \<open>stdio: 'inherit'\<close> are the same at the one call) and calls of the remote notarization.
\<close>

datatype effect =
    ConsoleLog string
  | ConsoleError string
  | SpawnSync string "string list" ref
  | Notarize notarizeOptions

text \<open>
  The state of the Node process a script runs in: \<open>process.argv\<close>,
  \<open>process.platform\<close>, the store with \<open>process.env\<close> in it, the file system as
  \<open>fs.existsSync\<close> sees it, the outcome the operating system gives to a child process
  (by command, arguments and the contents of its environment), the outcome of a
  notarization (the error its promise is rejected with, if any), and the effects so far.
\<close>

record process =
  process_argv :: "string list"
  process_platform :: string
  process_env :: ref
  store :: heap
  existsSync :: "string \<Rightarrow> bool"
  spawnSync :: "string \<Rightarrow> string list \<Rightarrow> environment \<Rightarrow> spawnResult"
  notarize :: "notarizeOptions \<Rightarrow> error option"
  effects :: "effect list"

definition emit :: "effect \<Rightarrow> process \<Rightarrow> process" where
  "emit e p = p\<lparr>effects := effects p @ [e]\<rparr>"

section \<open>scripts/electron-builder-wrapper.js\<close>

subsection \<open>stripCSC\<close>

text \<open>
  The rest pattern \<open>{CSC_LINK: _, CSC_KEY_PASSWORD: _, WIN_CSC_LINK: _,
  WIN_CSC_KEY_PASSWORD: _, ...strippedEnvironment} = environment\<close> binds
  \<open>strippedEnvironment\<close> to a new object holding every own enumerable property of
  \<open>environment\<close> but the four named ones.
\<close>

definition strippedEnvironment :: "environment \<Rightarrow> environment" where
  "strippedEnvironment environment =
     (\<lambda>key. if key = ''CSC_LINK'' \<or> key = ''CSC_KEY_PASSWORD'' \<or>
                key = ''WIN_CSC_LINK'' \<or> key = ''WIN_CSC_KEY_PASSWORD''
             then None else environment key)"

definition stripCSC :: "heap \<Rightarrow> ref \<Rightarrow> ref \<times> heap" where
  "stripCSC h environment = alloc h (strippedEnvironment (cells h environment))"

subsection \<open>getPlatformFlag\<close>

definition getPlatformFlag :: "process \<Rightarrow> error + string" where
  "getPlatformFlag p =
     (if process_platform p = ''win32'' then Inr ''--windows''
      else if process_platform p = ''darwin'' then Inr ''--macos''
      else if process_platform p = ''linux'' then Inr ''--linux''
      else Inl (Error (''Could not determine platform flag for platform: '' @ process_platform p)))"

subsection \<open>isTargetOfType\<close>

text \<open>\<open>s.indexOf(t) === 0\<close> says that \<open>t\<close> is a prefix of \<open>s\<close>.\<close>

definition isTargetOfType :: "string \<Rightarrow> string \<Rightarrow> bool" where
  "isTargetOfType targetName targetType =
     (targetName = targetType \<or> prefix (targetType @ '':'') targetName)"

subsection \<open>runBuilder\<close>

text \<open>
  The overall configuration object: \<open>doPackage\<close> and \<open>doSign\<close> are declared without a
  value and assigned in the branches of a \<open>switch\<close>, so each is \<open>true\<close>, \<open>false\<close> or
  \<open>undefined\<close>. (\<open>main\<close> adds the property \<open>targets\<close> to the object and reads it only in
  its own loop: it is a local value of \<open>main\<close> below.)
\<close>

record wrapperConfig =
  builderArgs :: "string list"
  doPackage :: "bool option"
  doSign :: "bool option"
  mode :: string

text \<open>One call of the packager: \<open>{platform, name}\<close>.\<close>

record target =
  platform :: string
  name :: string

text \<open>
  The function returns nothing; it either throws or ends normally, and leaves the
  process changed (a new object in the store when it strips, a console line, a child).
\<close>

definition runBuilder :: "process \<Rightarrow> wrapperConfig \<Rightarrow> target \<Rightarrow> process \<times> (error + unit)" where
  "runBuilder p wrapperConfig target =
     (let shouldStripCSC =
            (isTargetOfType (name target) ''appx'' \<or> \<not> truthyBoolean (doSign wrapperConfig));
          (childEnvironment, h) =
            (if shouldStripCSC then stripCSC (store p) (process_env p)
             else (process_env p, store p));
          p = p\<lparr>store := h\<rparr>
      in
      if truthyBoolean (doSign wrapperConfig) \<and>
         isTargetOfType (name target) ''nsis'' \<and>
         \<not> (truthyString (cells h childEnvironment ''CSC_LINK'') \<or>
            truthyString (cells h childEnvironment ''WIN_CSC_LINK''))
      then (p, Inl (Error ''Signing NSIS build requires CSC_LINK or WIN_CSC_LINK''))
      else
        (case getPlatformFlag p of
           Inl e \<Rightarrow> (p, Inl e)
         | Inr platformFlag \<Rightarrow>
             (let allArgs = [platformFlag, name target];
                  allArgs =
                    (if platform target = ''darwin''
                     then allArgs
                       @ [''--c.mac.type='' @
                            (if mode wrapperConfig = ''dist'' then ''distribution''
                             else ''development'')]
                       @ (if isTargetOfType (name target) ''mas-dev''
                          then [''--c.mac.provisioningProfile=mas-dev.provisionprofile'']
                          else [])
                       @ (if truthyBoolean (doSign wrapperConfig)
                          then [''--c.afterSign=scripts/afterSign.js'']
                          else [''--c.mac.identity=null''])
                     else allArgs);
                  allArgs =
                    (if \<not> truthyBoolean (doPackage wrapperConfig)
                     then allArgs @ [''--dir'', ''--c.compression=store'']
                     else allArgs);
                  allArgs = allArgs @ builderArgs wrapperConfig;
                  p = emit (ConsoleLog (''running electron-builder with arguments: '' @
                                        join '','' allArgs)) p;
                  result = spawnSync p ''electron-builder'' allArgs (cells h childEnvironment);
                  p = emit (SpawnSync ''electron-builder'' allArgs childEnvironment) p
              in
              case error result of
                Some e \<Rightarrow> (p, Inl e)
              | None \<Rightarrow>
                  if truthyString (signal result)
                  then (p, Inl (Error (''Child process terminated due to signal '' @
                          (case signal result of None \<Rightarrow> ''null'' | Some s \<Rightarrow> s))))
                  else if truthyNumber (status result)
                  then (p, Inl (Error (''Child process returned status code '' @
                          (case status result of None \<Rightarrow> ''null''
                           | Some n \<Rightarrow> numberToString n))))
                  else (p, Inr ()))))"

subsection \<open>addPlatformTarget\<close>

text \<open>
  \<open>targets.push(newEntry)\<close> is the list with the entry at its end. The parameter
  \<open>newArchitectures\<close> defaults to \<open>null\<close>, on which \<open>.map\<close> raises.
\<close>

definition addPlatformTarget ::
  "target list \<Rightarrow> string \<Rightarrow> string \<Rightarrow> string list option \<Rightarrow> error + target list" where
  "addPlatformTarget targets newPlatform newTarget newArchitectures =
     (case newArchitectures of
        None \<Rightarrow> Inl (TypeError ''Cannot read properties of null (reading 'map')'')
      | Some architectures \<Rightarrow>
          (let newEntry =
             \<lparr>platform = newPlatform,
              name = join '' '' (map (\<lambda>arch. newTarget @ '':'' @ arch) architectures)\<rparr>
           in Inr (targets @ [newEntry])))"

subsection \<open>calculateTargets\<close>

definition calculateTargets :: "process \<Rightarrow> wrapperConfig \<Rightarrow> process \<times> (error + target list)" where
  "calculateTargets p wrapperConfig =
     (let masDevProfile = ''mas-dev.provisionprofile'';
          targets = []
      in
      if process_platform p = ''win32'' then
        (case addPlatformTarget targets ''win32'' ''appx'' (Some [''x64'', ''ia32'', ''arm64'']) of
           Inl e \<Rightarrow> (p, Inl e)
         | Inr targets \<Rightarrow>
             (case addPlatformTarget targets ''win32'' ''nsis'' (Some [''ia32'']) of
                Inl e \<Rightarrow> (p, Inl e)
              | Inr targets \<Rightarrow> (p, Inr targets)))
      else if process_platform p = ''darwin'' then
        (case (if existsSync p masDevProfile
               then (p, addPlatformTarget targets ''darwin'' ''mas-dev'' (Some [''x64'', ''arm64'']))
               else (emit (ConsoleLog (''skipping 'mas-dev' targets: '' @ masDevProfile @
                                       '' missing'')) p,
                     Inr targets)) of
           (p, Inl e) \<Rightarrow> (p, Inl e)
         | (p, Inr targets) \<Rightarrow>
             (case (if truthyBoolean (doSign wrapperConfig)
                    then (p, addPlatformTarget targets ''darwin'' ''mas'' (Some [''x64'', ''arm64'']))
                    else (emit (ConsoleLog
                                  ''skipping 'mas' targets: code-signing is disabled'') p,
                          Inr targets)) of
                (p, Inl e) \<Rightarrow> (p, Inl e)
              | (p, Inr targets) \<Rightarrow>
                  (case addPlatformTarget targets ''darwin'' ''dmg'' (Some [''x64'', ''arm64'']) of
                     Inl e \<Rightarrow> (p, Inl e)
                   | Inr targets \<Rightarrow> (p, Inr targets))))
      else (p, Inl (Error (''Could not determine targets for platform: '' @ process_platform p))))"

subsection \<open>parseArgs\<close>

text \<open>
  The class \<open>\s\<close> of the regular expression, on the code units of the model: tab, line
  feed, vertical tab, form feed, carriage return, space and the no-break space.
\<close>

definition isWhiteSpace :: "char \<Rightarrow> bool" where
  "isWhiteSpace c =
     (c = CHR 0x09 \<or> c = CHR 0x0A \<or> c = CHR 0x0B \<or> c = CHR 0x0C \<or> c = CHR 0x0D \<or>
      c = CHR 0x20 \<or> c = CHR 0xA0)"

text \<open>
  A match of \<open>/--mode(\s+|=)/\<close> that starts at the first character of the text: the
  text the group captured and the text after the match. \<open>\s+\<close> is greedy and nothing
  follows it in the pattern, so it takes the whole run of white space.
\<close>

definition matchMode :: "string \<Rightarrow> (string \<times> string) option" where
  "matchMode s =
     (if prefix ''--mode'' s then
        (case drop 6 s of
           [] \<Rightarrow> None
         | c # cs \<Rightarrow>
             if isWhiteSpace c
             then Some (c # takeWhile isWhiteSpace cs, dropWhile isWhiteSpace cs)
             else if c = CHR ''='' then Some ([c], cs)
             else None)
      else None)"

lemma matchMode_shorter: "matchMode s = Some (capture, rest) \<Longrightarrow> length rest < length s"
proof -
  assume m: "matchMode s = Some (capture, rest)"
  have dw: "length (dropWhile isWhiteSpace cs) \<le> length cs" for cs
    by (simp add: length_dropWhile_le)
  from m obtain c cs where d: "drop 6 s = c # cs" and r: "length rest \<le> length cs"
    using dw by (auto simp: matchMode_def split: if_splits list.splits)
  have "length (drop 6 s) \<le> length s" by simp
  with d r show ?thesis by simp
qed

text \<open>
  \<open>arg.split(/--mode(\s+|=)/)\<close>: the text is cut at every match of the pattern, found
  from left to right, and each match leaves its captured group between the two pieces.
  \<open>piece\<close> is the text since the last match; a match is never empty.
\<close>

function splitMode :: "string \<Rightarrow> string \<Rightarrow> string list" where
  "splitMode piece [] = [piece]"
| "splitMode piece (c # cs) =
     (case matchMode (c # cs) of
        None \<Rightarrow> splitMode (piece @ [c]) cs
      | Some (capture, rest) \<Rightarrow> piece # capture # splitMode [] rest)"
  by pat_completeness auto
termination
  by (relation "measure (\<lambda>(piece, s). length s)") (auto dest: matchMode_shorter)

definition split :: "string \<Rightarrow> string list" where
  "split arg = splitMode [] arg"

text \<open>The loop \<open>for (const arg of scriptArgs)\<close>.\<close>

fun parseLoop :: "string list \<Rightarrow> string list \<Rightarrow> string \<Rightarrow> string list \<times> string" where
  "\<And>builderArgs mode. parseLoop [] builderArgs mode = (builderArgs, mode)"
| "\<And>builderArgs mode. parseLoop (arg # scriptArgs) builderArgs mode =
     (let modeSplit = split arg in
      if length modeSplit = 3 then parseLoop scriptArgs builderArgs (modeSplit ! 2)
      else parseLoop scriptArgs (builderArgs @ [arg]) mode)"

definition parseArgs :: "process \<Rightarrow> wrapperConfig" where
  "parseArgs p =
     (let scriptArgs = drop 2 (process_argv p);
          (builderArgs, mode) = parseLoop scriptArgs [] ''dev'';
          (doPackage, doSign) =
            (if mode = ''dev'' then (Some True, Some False)
             else if mode = ''dir'' then (Some False, Some False)
             else if mode = ''dist'' then (Some True, Some True)
             else (None, None))
      in \<lparr>builderArgs = builderArgs, doPackage = doPackage, doSign = doSign, mode = mode\<rparr>)"

subsection \<open>main\<close>

text \<open>The loop \<open>for (const target of wrapperConfig.targets)\<close>: the first throw ends it.\<close>

fun runAll :: "process \<Rightarrow> wrapperConfig \<Rightarrow> target list \<Rightarrow> process \<times> (error + unit)" where
  "runAll p wrapperConfig [] = (p, Inr ())"
| "runAll p wrapperConfig (target # targets) =
     (case runBuilder p wrapperConfig target of
        (p, Inl e) \<Rightarrow> (p, Inl e)
      | (p, Inr _) \<Rightarrow> runAll p wrapperConfig targets)"

definition main :: "process \<Rightarrow> process \<times> (error + unit)" where
  "main p =
     (let wrapperConfig = parseArgs p in
      case calculateTargets p wrapperConfig of
        (p, Inl e) \<Rightarrow> (p, Inl e)
      | (p, Inr targets) \<Rightarrow> runAll p wrapperConfig targets)"

section \<open>scripts/afterSign.js\<close>

text \<open>
  The \<open>context\<close> the packager hands to the hook, as far as the hook reads it: \<open>context.appOutDir\<close>,
  \<open>context.packager.appInfo.productFilename\<close> and \<open>context.targets\<close>, a list of the
  packager's target objects, each with a \<open>name\<close>.
\<close>

record appInfo =
  productFilename :: string

record packager =
  appInfo :: appInfo

record Target =
  name :: string

record NotarizationContext =
  appOutDir :: string
  packager :: packager
  targets :: "Target list"

text \<open>\<open>v || d\<close> on strings: \<open>d\<close> when \<open>v\<close> is \<open>undefined\<close> or empty.\<close>

definition orElse :: "string option \<Rightarrow> string \<Rightarrow> string" where
  "orElse v d = (case v of None \<Rightarrow> d | Some s \<Rightarrow> if s = [] then d else s)"

text \<open>The four lines \<open>notarizeMacBuild\<close> writes with \<open>console.error\<close>, joined by line feeds.\<close>

definition notNotarizedWarning :: string where
  \<open>notNotarizedWarning =
     join [CHR 0x0A]
       [''This build is not notarized and will not run on newer versions of macOS!'',
        ''Notarizing the macOS build requires an Apple ID. To notarize future builds:'',
        ''* Set the environment variable AC_USERNAME to your@apple.id and'',
        ''* Either set AC_PASSWORD or ensure your keychain has an item for "Application Loader: your@apple.id"'']\<close>

text \<open>
  An \<open>async\<close> function, awaited by its caller: its result is how its promise settles,
  \<^term>\<open>Inr ()\<close> when fulfilled and \<^term>\<open>Inl e\<close> when rejected with \<open>e\<close>. The test
  \<open>!process.env.AC_USERNAME\<close> holds when the variable is not set and when it is empty:
  both take the branch \<open>unset\<close>.
\<close>

definition notarizeMacBuild :: "process \<Rightarrow> NotarizationContext \<Rightarrow> process \<times> (error + unit)" where
  \<open>notarizeMacBuild p context =
     (let appId = ''edu.mit.scratch.scratch-desktop'';
          env = cells (store p) (process_env p);
          unset = (emit (ConsoleError notNotarizedWarning) p, Inr ())
      in
      case env ''AC_USERNAME'' of
        None \<Rightarrow> unset
      | Some username \<Rightarrow>
          if username = [] then unset
          else
            (let appleId = username;
                 appleIdKeychainItem = ''Application Loader: '' @ appleId;
                 p = (if truthyString (env ''AC_PASSWORD'')
                      then emit (ConsoleLog (''Notarizing with Apple ID "'' @ appleId @
                                             ''" and a password'')) p
                      else emit (ConsoleLog (''Notarizing with Apple ID "'' @ appleId @
                                             ''" and keychain item "'' @ appleIdKeychainItem @
                                             ''"'')) p);
                 appOutDir = appOutDir context;
                 productFilename = productFilename (appInfo (packager context));
                 options =
                   \<lparr>appBundleId = appId,
                    appPath = appOutDir @ ''/'' @ productFilename @ ''.app'',
                    appleId = appleId,
                    appleIdPassword =
                      orElse (env ''AC_PASSWORD'') (''@keychain:'' @ appleIdKeychainItem)\<rparr>;
                 p = emit (Notarize options) p
             in
             case notarize p options of
               Some e \<Rightarrow> (p, Inl e)
             | None \<Rightarrow> (p, Inr ())))\<close>

text \<open>
  \<open>context.targets[0]\<close> is \<open>undefined\<close> when the list is empty, and reading \<open>.name\<close>
  of it raises a \<open>TypeError\<close>, which rejects the promise.
\<close>

definition afterSign :: "process \<Rightarrow> NotarizationContext \<Rightarrow> process \<times> (error + unit)" where
  "afterSign p context =
     (case targets context of
        [] \<Rightarrow> (p, Inl (TypeError ''Cannot read properties of undefined (reading 'name')''))
      | first # _ \<Rightarrow>
          (let firstTargetName = Target.name first in
           if firstTargetName = ''mas-dev'' \<or> firstTargetName = ''mas'' then (p, Inr ())
           else if firstTargetName = ''dmg'' then notarizeMacBuild p context
           else (p, Inr ())))"

section \<open>What a run did\<close>

text \<open>The calls of the remote notarization among the effects of a run, in order.\<close>

fun notarizeCalls :: "effect list \<Rightarrow> notarizeOptions list" where
  "notarizeCalls [] = []"
| "notarizeCalls (Notarize options # es) = options # notarizeCalls es"
| "notarizeCalls (e # es) = notarizeCalls es"

section \<open>Concrete inputs\<close>

text \<open>
  An environment with signing credentials in it (and no \<open>WIN_CSC_KEY_PASSWORD\<close>), alone
  in a store, at address 0.
\<close>

definition exampleEnv :: environment where
  "exampleEnv =
     [''PATH'' \<mapsto> ''/usr/bin'', ''CSC_LINK'' \<mapsto> ''cert.p12'',
      ''CSC_KEY_PASSWORD'' \<mapsto> ''secret'', ''WIN_CSC_LINK'' \<mapsto> ''win.pfx'']"

definition exampleHeap :: heap where
  "exampleHeap = \<lparr>cells = (\<lambda>r. if r = 0 then exampleEnv else Map.empty), fresh = 1\<rparr>"

text \<open>
  A process on the platform \<open>os\<close>, started with the arguments \<open>args\<close> after the script's
  name, in a directory holding \<open>files\<close>, with the environment \<open>vars\<close>; every child exits
  with status 0 and every notarization is accepted.
\<close>

definition exampleProcess ::
  "string \<Rightarrow> string list \<Rightarrow> string list \<Rightarrow> environment \<Rightarrow> process" where
  "exampleProcess os args files vars =
     \<lparr>process_argv = ''node'' # ''scripts/electron-builder-wrapper.js'' # args,
      process_platform = os,
      process_env = 0,
      store = \<lparr>cells = (\<lambda>r. if r = 0 then vars else Map.empty), fresh = 1\<rparr>,
      existsSync = (\<lambda>path. path \<in> set files),
      spawnSync = (\<lambda>command args env. \<lparr>error = None, signal = None, status = Some 0\<rparr>),
      notarize = (\<lambda>options. None),
      effects = []\<rparr>"

text \<open>What the packager hands over after building the targets with the given names.\<close>

definition exampleContext :: "string list \<Rightarrow> NotarizationContext" where
  "exampleContext names =
     \<lparr>appOutDir = ''dist/mac'',
      packager = \<lparr>appInfo = \<lparr>productFilename = ''Scratch 3''\<rparr>\<rparr>,
      targets = map (\<lambda>n. \<lparr>Target.name = n\<rparr>) names\<rparr>"

section \<open>Properties of stripCSC\<close>

text \<open>
  Claim C5. For every environment, \<open>stripCSC\<close> returns a new object (its reference is
  the first address not allocated before the call) in which the four keys \<open>CSC_LINK\<close>,
  \<open>CSC_KEY_PASSWORD\<close>, \<open>WIN_CSC_LINK\<close> and \<open>WIN_CSC_KEY_PASSWORD\<close> are absent and every
  other key has the value it has in the input; every object allocated before the call,
  the input among them, has after the call the properties it had before. The function
  has no failing branch: it returns for every input, whichever of the four keys the input
  lacks.
\<close>

theorem stripCSC_new_mapping_without_credentials:
  assumes "stripCSC h environment = (stripped, h')"
  shows "stripped = fresh h \<and> fresh h' = Suc (fresh h) \<and>
         (\<forall>r. r < fresh h \<longrightarrow> cells h' r = cells h r) \<and>
         cells h' stripped ''CSC_LINK'' = None \<and>
         cells h' stripped ''CSC_KEY_PASSWORD'' = None \<and>
         cells h' stripped ''WIN_CSC_LINK'' = None \<and>
         cells h' stripped ''WIN_CSC_KEY_PASSWORD'' = None \<and>
         (\<forall>key. key \<notin> {''CSC_LINK'', ''CSC_KEY_PASSWORD'', ''WIN_CSC_LINK'',
                         ''WIN_CSC_KEY_PASSWORD''}
            \<longrightarrow> cells h' stripped key = cells h environment key)"
proof -
  from assms have s: "stripped = fst (stripCSC h environment)"
    and h': "h' = snd (stripCSC h environment)"
    by simp_all
  show ?thesis
    unfolding s h' by (simp add: stripCSC_def alloc_def strippedEnvironment_def)
qed

theorem stripCSC_new_mapping_without_credentials_witness:
  "cells (snd (stripCSC exampleHeap 0)) (fst (stripCSC exampleHeap 0)) ''PATH'' =
     Some ''/usr/bin'' \<and>
   cells (snd (stripCSC exampleHeap 0)) (fst (stripCSC exampleHeap 0)) ''CSC_LINK'' = None \<and>
   cells (snd (stripCSC exampleHeap 0)) (fst (stripCSC exampleHeap 0))
     ''WIN_CSC_KEY_PASSWORD'' = None \<and>
   cells (snd (stripCSC exampleHeap 0)) 0 ''CSC_LINK'' = Some ''cert.p12'' \<and>
   fst (stripCSC exampleHeap 0) = 1"
proof -
  have e: "fresh exampleHeap = 1" "cells exampleHeap 0 = exampleEnv"
    by (simp_all add: exampleHeap_def)
  have v: "exampleEnv ''PATH'' = Some ''/usr/bin''" "exampleEnv ''CSC_LINK'' = Some ''cert.p12''"
    by (simp_all add: exampleEnv_def)
  from stripCSC_new_mapping_without_credentials
         [where h = exampleHeap and environment = 0, OF prod.collapse [symmetric]]
  show ?thesis
    by (clarsimp simp add: e v)
qed

text \<open>
  Claim C10. \<open>stripCSC\<close> is idempotent: the object that stripping the result of
  \<open>stripCSC\<close> returns has the properties that result has (it is another object: the two
  references differ), and the second call leaves the first result as it was.
\<close>

theorem stripCSC_idempotent:
  "case stripCSC h environment of
     (once, h1) \<Rightarrow>
       (case stripCSC h1 once of
          (twice, h2) \<Rightarrow> cells h2 twice = cells h1 once \<and> cells h2 once = cells h1 once)"
  by (simp add: stripCSC_def alloc_def strippedEnvironment_def fun_eq_iff)

section \<open>Properties of parseArgs\<close>

lemma parseArgs_example_dist:
  "parseArgs (exampleProcess os [''--mode=dist''] files vars) =
     \<lparr>builderArgs = [], doPackage = Some True, doSign = Some True, mode = ''dist''\<rparr>"
  by (simp add: parseArgs_def exampleProcess_def split_def matchMode_def isWhiteSpace_def)

text \<open>
  Claim C2. The mode may be given as \<open>--mode <value>\<close>, in two successive tokens, or as
  \<open>--mode=<value>\<close>, in one. The pattern \<open>/--mode(\s+|=)/\<close> provides for both, but the
  loop matches it against one token at a time, and the white space between two tokens
  is in neither of them. So for the tokens \<open>--mode\<close> and \<open>dist\<close> the mode is not
  \<open>dist\<close>: it stays \<open>dev\<close>, signing stays off, and both tokens go to the packager as
  arguments of its own; the one token \<open>--mode=dist\<close> does set the mode, and is not
  forwarded.
\<close>

theorem parseArgs_two_tokens_mode_not_set:
  "mode (parseArgs (exampleProcess ''win32'' [''--mode'', ''dist''] [] Map.empty)) \<noteq> ''dist'' \<and>
   mode (parseArgs (exampleProcess ''win32'' [''--mode'', ''dist''] [] Map.empty)) = ''dev'' \<and>
   doPackage (parseArgs (exampleProcess ''win32'' [''--mode'', ''dist''] [] Map.empty)) =
     Some True \<and>
   doSign (parseArgs (exampleProcess ''win32'' [''--mode'', ''dist''] [] Map.empty)) =
     Some False \<and>
   builderArgs (parseArgs (exampleProcess ''win32'' [''--mode'', ''dist''] [] Map.empty)) =
     [''--mode'', ''dist''] \<and>
   mode (parseArgs (exampleProcess ''win32'' [''--mode=dist''] [] Map.empty)) = ''dist'' \<and>
   builderArgs (parseArgs (exampleProcess ''win32'' [''--mode=dist''] [] Map.empty)) = []"
  by (simp add: parseArgs_def exampleProcess_def split_def matchMode_def isWhiteSpace_def)

text \<open>
  Claim C7. In the configuration \<open>parseArgs\<close> returns, the mode fixes both flags: \<open>dev\<close>
  packages and does not sign, \<open>dir\<close> does neither, \<open>dist\<close> does both; so these three pairs
  are the only ones the three modes reach.
\<close>

theorem parseArgs_flags_by_mode:
  "(mode (parseArgs p) = ''dev'' \<longrightarrow>
      doPackage (parseArgs p) = Some True \<and> doSign (parseArgs p) = Some False) \<and>
   (mode (parseArgs p) = ''dir'' \<longrightarrow>
      doPackage (parseArgs p) = Some False \<and> doSign (parseArgs p) = Some False) \<and>
   (mode (parseArgs p) = ''dist'' \<longrightarrow>
      doPackage (parseArgs p) = Some True \<and> doSign (parseArgs p) = Some True) \<and>
   (mode (parseArgs p) \<in> {''dev'', ''dir'', ''dist''} \<longrightarrow>
      (doPackage (parseArgs p), doSign (parseArgs p)) \<in>
        {(Some True, Some False), (Some False, Some False), (Some True, Some True)})"
  by (simp add: parseArgs_def split: prod.splits)

theorem parseArgs_flags_by_mode_witness:
  "mode (parseArgs (exampleProcess ''win32'' [''--mode=dist''] [] Map.empty)) = ''dist'' \<and>
   doPackage (parseArgs (exampleProcess ''win32'' [''--mode=dist''] [] Map.empty)) =
     Some True \<and>
   doSign (parseArgs (exampleProcess ''win32'' [''--mode=dist''] [] Map.empty)) = Some True"
proof -
  have m: "mode (parseArgs (exampleProcess ''win32'' [''--mode=dist''] [] Map.empty)) = ''dist''"
    by (simp add: parseArgs_example_dist)
  from parseArgs_flags_by_mode [of "exampleProcess ''win32'' [''--mode=dist''] [] Map.empty"] m
  show ?thesis
    by (simp only: simp_thms)
qed

section \<open>Properties of runBuilder\<close>

lemma nsis_not_appx:
  "isTargetOfType targetName ''nsis'' \<Longrightarrow> \<not> isTargetOfType targetName ''appx''"
  by (auto simp add: isTargetOfType_def prefix_def)

text \<open>
  Claim C1. When \<open>doSign\<close> is true and the name of the pass is \<open>nsis\<close> or begins with
  \<open>nsis:\<close>, nothing is stripped, so the child would get \<open>process.env\<close> itself; if neither
  \<open>CSC_LINK\<close> nor \<open>WIN_CSC_LINK\<close> is in it, \<open>runBuilder\<close> throws the error "Signing NSIS
  build requires CSC_LINK or WIN_CSC_LINK" and leaves the process as it found it: nothing
  is written and no child is spawned.
\<close>

theorem runBuilder_nsis_without_credentials:
  assumes "doSign wrapperConfig = Some True"
    and "isTargetOfType (target.name t) ''nsis''"
    and "cells (store p) (process_env p) ''CSC_LINK'' = None"
    and "cells (store p) (process_env p) ''WIN_CSC_LINK'' = None"
  shows "runBuilder p wrapperConfig t =
           (p, Inl (Error ''Signing NSIS build requires CSC_LINK or WIN_CSC_LINK''))"
proof -
  from assms(2) have "\<not> isTargetOfType (target.name t) ''appx''"
    by (rule nsis_not_appx)
  with assms show ?thesis
    by (simp add: runBuilder_def truthyBoolean_def truthyString_def)
qed

theorem runBuilder_nsis_without_credentials_witness:
  "runBuilder (exampleProcess ''win32'' [''--mode=dist''] [] [''PATH'' \<mapsto> ''/usr/bin''])
     (parseArgs (exampleProcess ''win32'' [''--mode=dist''] [] [''PATH'' \<mapsto> ''/usr/bin'']))
     \<lparr>platform = ''win32'', name = ''nsis:ia32''\<rparr> =
   (exampleProcess ''win32'' [''--mode=dist''] [] [''PATH'' \<mapsto> ''/usr/bin''],
    Inl (Error ''Signing NSIS build requires CSC_LINK or WIN_CSC_LINK''))"
proof (rule runBuilder_nsis_without_credentials)
  show "doSign (parseArgs (exampleProcess ''win32'' [''--mode=dist''] []
                             [''PATH'' \<mapsto> ''/usr/bin''])) = Some True"
    by (simp add: parseArgs_example_dist)
  show "isTargetOfType (target.name \<lparr>platform = ''win32'', name = ''nsis:ia32''\<rparr>) ''nsis''"
    by (simp add: isTargetOfType_def)
  show "cells (store (exampleProcess ''win32'' [''--mode=dist''] [] [''PATH'' \<mapsto> ''/usr/bin'']))
          (process_env (exampleProcess ''win32'' [''--mode=dist''] []
                          [''PATH'' \<mapsto> ''/usr/bin''])) ''CSC_LINK'' = None"
    by (simp add: exampleProcess_def)
  show "cells (store (exampleProcess ''win32'' [''--mode=dist''] [] [''PATH'' \<mapsto> ''/usr/bin'']))
          (process_env (exampleProcess ''win32'' [''--mode=dist''] []
                          [''PATH'' \<mapsto> ''/usr/bin''])) ''WIN_CSC_LINK'' = None"
    by (simp add: exampleProcess_def)
qed

section \<open>Properties of calculateTargets\<close>

text \<open>
  Claim C4. On \<open>win32\<close> the planner returns exactly two passes and changes nothing: first
  the pass named \<open>appx:x64 appx:ia32 appx:arm64\<close>, then the pass named \<open>nsis:ia32\<close>.
\<close>

theorem calculateTargets_win32:
  assumes "process_platform p = ''win32''"
  shows "calculateTargets p wrapperConfig =
           (p, Inr [\<lparr>platform = ''win32'', name = ''appx:x64 appx:ia32 appx:arm64''\<rparr>,
                    \<lparr>platform = ''win32'', name = ''nsis:ia32''\<rparr>])"
  using assms by (simp add: calculateTargets_def addPlatformTarget_def)

theorem calculateTargets_win32_witness:
  "calculateTargets (exampleProcess ''win32'' [] [] Map.empty)
     (parseArgs (exampleProcess ''win32'' [] [] Map.empty)) =
   (exampleProcess ''win32'' [] [] Map.empty,
    Inr [\<lparr>platform = ''win32'', name = ''appx:x64 appx:ia32 appx:arm64''\<rparr>,
         \<lparr>platform = ''win32'', name = ''nsis:ia32''\<rparr>])"
proof (rule calculateTargets_win32)
  show "process_platform (exampleProcess ''win32'' [] [] Map.empty) = ''win32''"
    by (simp add: exampleProcess_def)
qed

text \<open>
  Claim C3. On \<open>darwin\<close> the planner returns, in this order: the pass
  \<open>mas-dev:x64 mas-dev:arm64\<close> exactly when the file \<open>mas-dev.provisionprofile\<close> exists, the
  pass \<open>mas:x64 mas:arm64\<close> exactly when \<open>doSign\<close> is true, and the pass
  \<open>dmg:x64 dmg:arm64\<close> always.
\<close>

theorem calculateTargets_darwin:
  assumes "process_platform p = ''darwin''"
  shows "snd (calculateTargets p wrapperConfig) =
           Inr ((if existsSync p ''mas-dev.provisionprofile''
                 then [\<lparr>platform = ''darwin'', name = ''mas-dev:x64 mas-dev:arm64''\<rparr>]
                 else []) @
                (if doSign wrapperConfig = Some True
                 then [\<lparr>platform = ''darwin'', name = ''mas:x64 mas:arm64''\<rparr>]
                 else []) @
                [\<lparr>platform = ''darwin'', name = ''dmg:x64 dmg:arm64''\<rparr>])"
proof -
  have s: "truthyBoolean (doSign wrapperConfig) = (doSign wrapperConfig = Some True)"
    by (simp add: truthyBoolean_def split: option.splits)
  from assms show ?thesis
    by (simp add: calculateTargets_def addPlatformTarget_def s emit_def)
qed

theorem calculateTargets_darwin_witness:
  "snd (calculateTargets
          (exampleProcess ''darwin'' [''--mode=dist''] [''mas-dev.provisionprofile''] Map.empty)
          (parseArgs
             (exampleProcess ''darwin'' [''--mode=dist''] [''mas-dev.provisionprofile'']
                Map.empty))) =
   Inr [\<lparr>platform = ''darwin'', name = ''mas-dev:x64 mas-dev:arm64''\<rparr>,
        \<lparr>platform = ''darwin'', name = ''mas:x64 mas:arm64''\<rparr>,
        \<lparr>platform = ''darwin'', name = ''dmg:x64 dmg:arm64''\<rparr>]"
proof -
  let ?p = "exampleProcess ''darwin'' [''--mode=dist''] [''mas-dev.provisionprofile''] Map.empty"
  have d: "process_platform ?p = ''darwin''"
    by (simp add: exampleProcess_def)
  have f: "existsSync ?p ''mas-dev.provisionprofile''"
    by (simp add: exampleProcess_def)
  have s: "doSign (parseArgs ?p) = Some True"
    by (simp add: parseArgs_example_dist)
  from calculateTargets_darwin [OF d, of "parseArgs ?p"] f s show ?thesis
    by simp
qed

text \<open>
  Claim C8. On \<open>win32\<close> and on \<open>darwin\<close> the planner returns a list of passes that is
  not empty; on every other platform it throws the error "Could not determine targets
  for platform: " with the platform's name, and returns nothing.
\<close>

theorem calculateTargets_platforms:
  "(process_platform p = ''win32'' \<or> process_platform p = ''darwin'' \<longrightarrow>
      (\<exists>targets. snd (calculateTargets p wrapperConfig) = Inr targets \<and> targets \<noteq> [])) \<and>
   (process_platform p \<noteq> ''win32'' \<and> process_platform p \<noteq> ''darwin'' \<longrightarrow>
      calculateTargets p wrapperConfig =
        (p, Inl (Error (''Could not determine targets for platform: '' @ process_platform p))))"
proof (intro conjI impI)
  assume "process_platform p = ''win32'' \<or> process_platform p = ''darwin''"
  then show "\<exists>targets. snd (calculateTargets p wrapperConfig) = Inr targets \<and> targets \<noteq> []"
  proof
    assume "process_platform p = ''win32''"
    then show ?thesis
      by (simp add: calculateTargets_def addPlatformTarget_def)
  next
    assume "process_platform p = ''darwin''"
    then show ?thesis
      by (cases "existsSync p ''mas-dev.provisionprofile''";
          cases "truthyBoolean (doSign wrapperConfig)";
          simp add: calculateTargets_def addPlatformTarget_def)
  qed
next
  assume "process_platform p \<noteq> ''win32'' \<and> process_platform p \<noteq> ''darwin''"
  then show "calculateTargets p wrapperConfig =
        (p, Inl (Error (''Could not determine targets for platform: '' @ process_platform p)))"
    by (simp add: calculateTargets_def)
qed

theorem calculateTargets_platforms_witness:
  "(\<exists>targets. snd (calculateTargets (exampleProcess ''darwin'' [] [] Map.empty)
                      (parseArgs (exampleProcess ''darwin'' [] [] Map.empty))) = Inr targets \<and>
              targets \<noteq> []) \<and>
   calculateTargets (exampleProcess ''linux'' [] [] Map.empty)
     (parseArgs (exampleProcess ''linux'' [] [] Map.empty)) =
   (exampleProcess ''linux'' [] [] Map.empty,
    Inl (Error ''Could not determine targets for platform: linux''))"
proof -
  let ?d = "exampleProcess ''darwin'' [] [] Map.empty"
  let ?l = "exampleProcess ''linux'' [] [] Map.empty"
  have d: "process_platform ?d = ''darwin''"
    and l: "process_platform ?l = ''linux''"
    by (simp_all add: exampleProcess_def)
  from calculateTargets_platforms [of ?d "parseArgs ?d"] d
  have 1: "\<exists>targets. snd (calculateTargets ?d (parseArgs ?d)) = Inr targets \<and> targets \<noteq> []"
    by simp
  from calculateTargets_platforms [of ?l "parseArgs ?l"] l
  have 2: "calculateTargets ?l (parseArgs ?l) =
      (?l, Inl (Error ''Could not determine targets for platform: linux''))"
    by simp
  from 1 2 show ?thesis
    by (intro conjI)
qed

section \<open>Properties of afterSign\<close>

lemma notarizeCalls_append: "notarizeCalls (xs @ ys) = notarizeCalls xs @ notarizeCalls ys"
  by (induction xs rule: notarizeCalls.induct) simp_all

lemma notarizeMacBuild_unset:
  assumes "\<not> truthyString (cells (store p) (process_env p) ''AC_USERNAME'')"
  shows "notarizeMacBuild p context = (emit (ConsoleError notNotarizedWarning) p, Inr ())"
  using assms
  by (simp add: notarizeMacBuild_def truthyString_def Let_def split: option.splits)

lemma notarizeMacBuild_keychain:
  assumes "cells (store p) (process_env p) ''AC_USERNAME'' = Some username"
    and "username \<noteq> []"
    and "\<not> truthyString (cells (store p) (process_env p) ''AC_PASSWORD'')"
  shows "notarizeCalls (effects (fst (notarizeMacBuild p context))) =
           notarizeCalls (effects p) @
           [\<lparr>appBundleId = ''edu.mit.scratch.scratch-desktop'',
             appPath = appOutDir context @ ''/'' @
                       productFilename (appInfo (packager context)) @ ''.app'',
             appleId = username,
             appleIdPassword = ''@keychain:Application Loader: '' @ username\<rparr>]"
  using assms
  by (simp add: notarizeMacBuild_def truthyString_def orElse_def Let_def emit_def
      notarizeCalls_append split: option.splits)

text \<open>
  Claim C9. When the list of targets is empty the hook does not return normally: reading
  the name of the first target raises a \<open>TypeError\<close>, which rejects the promise of the
  hook, before anything else is done. No input with an empty list escapes this.
\<close>

theorem afterSign_empty_targets:
  assumes "targets context = []"
  shows "afterSign p context =
           (p, Inl (TypeError ''Cannot read properties of undefined (reading 'name')''))"
  using assms by (simp add: afterSign_def)

theorem afterSign_empty_targets_witness:
  "afterSign (exampleProcess ''darwin'' [] [] [''AC_USERNAME'' \<mapsto> ''dev@example.org''])
     (exampleContext []) =
   (exampleProcess ''darwin'' [] [] [''AC_USERNAME'' \<mapsto> ''dev@example.org''],
    Inl (TypeError ''Cannot read properties of undefined (reading 'name')''))"
proof (rule afterSign_empty_targets)
  show "targets (exampleContext []) = []"
    by (simp add: exampleContext_def)
qed

text \<open>
  Claim C6, as amended. With a first target named \<open>mas\<close> or \<open>mas-dev\<close> the hook does
  nothing. With a first target named \<open>dmg\<close> and \<open>AC_USERNAME\<close> not set it writes the
  warning to the console and is fulfilled, and that is all it does. With a first target
  named \<open>dmg\<close>, \<open>AC_USERNAME\<close> set to a string that is not empty and \<open>AC_PASSWORD\<close> not set
  it calls the notarization once, with the password \<open>@keychain:\<close> followed by
  \<open>Application Loader: \<close> and the user name. With any other first target it does nothing.
\<close>

theorem afterSign_by_first_target:
  assumes "targets context = first # others"
  shows "(Target.name first = ''mas'' \<or> Target.name first = ''mas-dev'' \<longrightarrow>
            afterSign p context = (p, Inr ())) \<and>
         (Target.name first = ''dmg'' \<and>
          cells (store p) (process_env p) ''AC_USERNAME'' = None \<longrightarrow>
            afterSign p context = (emit (ConsoleError notNotarizedWarning) p, Inr ())) \<and>
         (Target.name first = ''dmg'' \<and>
          cells (store p) (process_env p) ''AC_USERNAME'' = Some username \<and> username \<noteq> [] \<and>
          cells (store p) (process_env p) ''AC_PASSWORD'' = None \<longrightarrow>
            notarizeCalls (effects (fst (afterSign p context))) =
              notarizeCalls (effects p) @
              [\<lparr>appBundleId = ''edu.mit.scratch.scratch-desktop'',
                appPath = appOutDir context @ ''/'' @
                          productFilename (appInfo (packager context)) @ ''.app'',
                appleId = username,
                appleIdPassword = ''@keychain:Application Loader: '' @ username\<rparr>]) \<and>
         (Target.name first \<noteq> ''mas'' \<and> Target.name first \<noteq> ''mas-dev'' \<and>
          Target.name first \<noteq> ''dmg'' \<longrightarrow>
            afterSign p context = (p, Inr ()))"
proof (intro conjI impI)
  assume "Target.name first = ''mas'' \<or> Target.name first = ''mas-dev''"
  with assms show "afterSign p context = (p, Inr ())"
    by (auto simp add: afterSign_def)
next
  assume a: "Target.name first = ''dmg'' \<and> cells (store p) (process_env p) ''AC_USERNAME'' = None"
  then have "\<not> truthyString (cells (store p) (process_env p) ''AC_USERNAME'')"
    by (simp add: truthyString_def)
  from notarizeMacBuild_unset [OF this, of "context"] a assms
  show "afterSign p context = (emit (ConsoleError notNotarizedWarning) p, Inr ())"
    by (simp add: afterSign_def)
next
  assume a: "Target.name first = ''dmg'' \<and>
          cells (store p) (process_env p) ''AC_USERNAME'' = Some username \<and> username \<noteq> [] \<and>
          cells (store p) (process_env p) ''AC_PASSWORD'' = None"
  then have "\<not> truthyString (cells (store p) (process_env p) ''AC_PASSWORD'')"
    by (simp add: truthyString_def)
  with a have "notarizeCalls (effects (fst (notarizeMacBuild p context))) =
           notarizeCalls (effects p) @
           [\<lparr>appBundleId = ''edu.mit.scratch.scratch-desktop'',
             appPath = appOutDir context @ ''/'' @
                       productFilename (appInfo (packager context)) @ ''.app'',
             appleId = username,
             appleIdPassword = ''@keychain:Application Loader: '' @ username\<rparr>]"
    by (intro notarizeMacBuild_keychain) simp_all
  moreover from a assms have "afterSign p context = notarizeMacBuild p context"
    by (simp add: afterSign_def)
  ultimately show "notarizeCalls (effects (fst (afterSign p context))) =
              notarizeCalls (effects p) @
              [\<lparr>appBundleId = ''edu.mit.scratch.scratch-desktop'',
                appPath = appOutDir context @ ''/'' @
                          productFilename (appInfo (packager context)) @ ''.app'',
                appleId = username,
                appleIdPassword = ''@keychain:Application Loader: '' @ username\<rparr>]"
    by simp
next
  assume "Target.name first \<noteq> ''mas'' \<and> Target.name first \<noteq> ''mas-dev'' \<and>
          Target.name first \<noteq> ''dmg''"
  with assms show "afterSign p context = (p, Inr ())"
    by (simp add: afterSign_def)
qed

theorem afterSign_by_first_target_witness:
  "notarizeCalls (effects (fst (afterSign
      (exampleProcess ''darwin'' [] [] [''AC_USERNAME'' \<mapsto> ''dev@example.org''])
      (exampleContext [''dmg''])))) =
   [\<lparr>appBundleId = ''edu.mit.scratch.scratch-desktop'',
     appPath = ''dist/mac/Scratch 3.app'',
     appleId = ''dev@example.org'',
     appleIdPassword = ''@keychain:Application Loader: dev@example.org''\<rparr>] \<and>
   afterSign (exampleProcess ''darwin'' [] [] [''AC_USERNAME'' \<mapsto> ''dev@example.org''])
     (exampleContext [''mas'']) =
   (exampleProcess ''darwin'' [] [] [''AC_USERNAME'' \<mapsto> ''dev@example.org''], Inr ()) \<and>
   afterSign (exampleProcess ''darwin'' [] [] [''AC_USERNAME'' \<mapsto> ''dev@example.org''])
     (exampleContext [''pkg'']) =
   (exampleProcess ''darwin'' [] [] [''AC_USERNAME'' \<mapsto> ''dev@example.org''], Inr ()) \<and>
   afterSign (exampleProcess ''darwin'' [] [] Map.empty) (exampleContext [''dmg'']) =
     (emit (ConsoleError notNotarizedWarning) (exampleProcess ''darwin'' [] [] Map.empty),
      Inr ())"
proof -
  let ?p = "exampleProcess ''darwin'' [] [] [''AC_USERNAME'' \<mapsto> ''dev@example.org'']"
  let ?q = "exampleProcess ''darwin'' [] [] Map.empty"
  have t: "targets (exampleContext [n]) = \<lparr>Target.name = n\<rparr> # []" for n
    by (simp add: exampleContext_def)
  have e: "cells (store ?p) (process_env ?p) ''AC_USERNAME'' = Some ''dev@example.org''"
    "cells (store ?p) (process_env ?p) ''AC_PASSWORD'' = None"
    "cells (store ?q) (process_env ?q) ''AC_USERNAME'' = None"
    "effects ?p = []"
    by (simp_all add: exampleProcess_def)
  have c: "appOutDir (exampleContext [''dmg'']) = ''dist/mac''"
    "productFilename (appInfo (packager (exampleContext [''dmg'']))) = ''Scratch 3''"
    by (simp_all add: exampleContext_def)
  from afterSign_by_first_target [OF t, of "''dmg''" ?p "''dev@example.org''"] e c
  have 1: "notarizeCalls (effects (fst (afterSign ?p (exampleContext [''dmg''])))) =
     [\<lparr>appBundleId = ''edu.mit.scratch.scratch-desktop'',
       appPath = ''dist/mac/Scratch 3.app'',
       appleId = ''dev@example.org'',
       appleIdPassword = ''@keychain:Application Loader: dev@example.org''\<rparr>]"
    by simp
  from afterSign_by_first_target [OF t, of "''mas''" ?p]
  have 2: "afterSign ?p (exampleContext [''mas'']) = (?p, Inr ())"
    by simp
  from afterSign_by_first_target [OF t, of "''pkg''" ?p]
  have 3: "afterSign ?p (exampleContext [''pkg'']) = (?p, Inr ())"
    by simp
  from afterSign_by_first_target [OF t, of "''dmg''" ?q] e
  have 4: "afterSign ?q (exampleContext [''dmg'']) =
      (emit (ConsoleError notNotarizedWarning) ?q, Inr ())"
    by simp
  from 1 2 3 4 show ?thesis
    by (intro conjI)
qed

text \<open>
  Claim C6 as it was stated fails when \<open>AC_USERNAME\<close> is set to the empty string and
  \<open>AC_PASSWORD\<close> is not set: the first target is \<open>dmg\<close>, and no notarization is called.
\<close>

theorem afterSign_empty_username_counterexample:
  "cells (store (exampleProcess ''darwin'' [] [] [''AC_USERNAME'' \<mapsto> '''']))
     (process_env (exampleProcess ''darwin'' [] [] [''AC_USERNAME'' \<mapsto> '''']))
     ''AC_USERNAME'' = Some '''' \<and>
   cells (store (exampleProcess ''darwin'' [] [] [''AC_USERNAME'' \<mapsto> '''']))
     (process_env (exampleProcess ''darwin'' [] [] [''AC_USERNAME'' \<mapsto> '''']))
     ''AC_PASSWORD'' = None \<and>
   map Target.name (targets (exampleContext [''dmg''])) = [''dmg''] \<and>
   notarizeCalls (effects (fst (afterSign
      (exampleProcess ''darwin'' [] [] [''AC_USERNAME'' \<mapsto> ''''])
      (exampleContext [''dmg''])))) = []"
  by (simp add: afterSign_def notarizeMacBuild_def exampleProcess_def exampleContext_def emit_def)

end
